theory Spec2Isabelle
  imports Main "HOL-Library.Sublist"
begin

section \<open>JavaScript strings\<close>

text \<open>
  A source string is a \<^typ>\<open>string\<close>: an ASCII character stands for itself, and a
  character outside ASCII is written as the bytes of its UTF-8 encoding (the encoding of
  the source files), so \<open>U+00A9\<close> is \<open>[0xC2, 0xA9]\<close>.

  \<open>String.prototype.toLowerCase\<close> maps the code units \<open>A\<close> .. \<open>Z\<close> (65 .. 90) to
  \<open>a\<close> .. \<open>z\<close> and leaves every other ASCII character alone. Case mapping outside
  ASCII is not modelled: the one call of the repository (\<open>ExampleCard\<close>) is on the
  \<open>number\<close> field of an example.
\<close>

definition toLowerCase_char :: "char \<Rightarrow> char" where
  "toLowerCase_char c =
     (let n = (of_char c :: nat) in if 65 \<le> n \<and> n \<le> 90 then char_of (n + 32) else c)"

definition toLowerCase :: "string \<Rightarrow> string" where
  "toLowerCase s = map toLowerCase_char s"

text \<open>
  \<open>String.prototype.replace(pattern, replacement)\<close> with a string pattern replaces
  the first occurrence only, searching from the left; an empty pattern matches at the
  start. The replacement is taken literally (the one replacement of the repository is
  \<open>'-'\<close>, which holds no \<open>$\<close> pattern).
\<close>

fun replace :: "string \<Rightarrow> string \<Rightarrow> string \<Rightarrow> string" where
  "replace pat rep [] = (if pat = [] then rep else [])"
| "replace pat rep (c # cs) =
     (if prefix pat (c # cs) then rep @ drop (length pat) (c # cs)
      else c # replace pat rep cs)"

definition is_digit :: "char \<Rightarrow> bool" where
  "is_digit c = (let n = (of_char c :: nat) in 48 \<le> n \<and> n \<le> 57)"

text \<open>The numeric value of a decimal digit string; \<open>None\<close> on any other string.\<close>

fun digits_value :: "nat \<Rightarrow> string \<Rightarrow> nat option" where
  "digits_value acc [] = Some acc"
| "digits_value acc (c # cs) =
     (if is_digit c then digits_value (10 * acc + (of_char c - 48)) cs else None)"

definition numeric_value :: "string \<Rightarrow> nat option" where
  "numeric_value s = (if s = [] then None else digits_value 0 s)"

definition numeric_less :: "string \<Rightarrow> string \<Rightarrow> bool" where
  "numeric_less a b =
     (case (numeric_value a, numeric_value b) of
        (Some x, Some y) \<Rightarrow> x < y
      | _ \<Rightarrow> False)"

section \<open>Rendered markup\<close>

text \<open>
  A JSX expression evaluates to a tree: a text node, or an element with a tag (an HTML
  tag, or the name of a component), its props and its children. A prop value is a
  string, a number (\<open>key={idx}\<close>, \<open>width: 40\<close>) or an object of strings (\<open>style\<close>).
  The components of the site generator and its theme (\<open>Layout\<close>, \<open>Heading\<close>,
  \<open>Link\<close>) are not code of this repository and stay unexpanded; a component of the
  repository is expanded under a node that carries its name and its \<open>key\<close>.
\<close>

datatype pval = S string | N nat | Obj "(string \<times> string) list"

datatype element = Text string | Elem string "(string \<times> pval) list" "element list"

fun prop_value :: "string \<Rightarrow> element \<Rightarrow> pval option" where
  "prop_value k (Text t) = None"
| "prop_value k (Elem n ps cs) = map_of ps k"

text \<open>
  The nodes with a given tag, outermost first and in document order (a match is not
  searched again inside).
\<close>

fun find_tag :: "string \<Rightarrow> element \<Rightarrow> element list" where
  "find_tag t (Text x) = []"
| "find_tag t (Elem n ps cs) =
     (if n = t then [Elem n ps cs] else concat (map (find_tag t) cs))"

text \<open>\<open>clsx\<close> joins its non-empty string arguments with single spaces.\<close>

fun clsx :: "string list \<Rightarrow> string" where
  "clsx [] = []"
| "clsx (x # xs) =
     (if x = [] then clsx xs
      else if clsx xs = [] then x else x @ '' '' @ clsx xs)"

section \<open>The data arrays of the components\<close>

record example =
  ex_number :: string
  ex_title :: string
  ex_description :: string

record category =
  cat_title :: string
  cat_description :: string
  cat_examples :: "example list"

definition ExampleCategories :: "category list" where
  "ExampleCategories = [
    \<lparr>cat_title = ''Foundation Examples (00-09)'',
     cat_description = ''Start here if you're new to SyntropyLog'',
     cat_examples = [
      \<lparr>ex_number = ''00'', ex_title = ''Setup & Initialization'', ex_description = ''Basic initialization patterns''\<rparr>,
      \<lparr>ex_number = ''01'', ex_title = ''Hello World'', ex_description = ''Your first SyntropyLog application''\<rparr>,
      \<lparr>ex_number = ''02'', ex_title = ''Basic Context'', ex_description = ''Understanding context management''\<rparr>,
      \<lparr>ex_number = ''03'', ex_title = ''TypeScript Context'', ex_description = ''Type-safe context with TypeScript''\<rparr>,
      \<lparr>ex_number = ''04'', ex_title = ''Logging Levels & Transports'', ex_description = ''Different log formats and levels''\<rparr>,
      \<lparr>ex_number = ''05'', ex_title = ''Configuration Patterns'', ex_description = ''Advanced configuration strategies''\<rparr>,
      \<lparr>ex_number = ''06'', ex_title = ''Error Handling'', ex_description = ''Best practices for error logging''\<rparr>,
      \<lparr>ex_number = ''07'', ex_title = ''Performance Monitoring'', ex_description = ''Monitoring application performance''\<rparr>,
      \<lparr>ex_number = ''08'', ex_title = ''Testing Strategies'', ex_description = ''How to test with SyntropyLog''\<rparr>,
      \<lparr>ex_number = ''09'', ex_title = ''Best Practices'', ex_description = ''Production-ready patterns''\<rparr>]\<rparr>,
    \<lparr>cat_title = ''HTTP & Redis Examples (10-13)'',
     cat_description = ''Learn HTTP instrumentation and Redis integration'',
     cat_examples = [
      \<lparr>ex_number = ''10'', ex_title = ''Basic HTTP Correlation'', ex_description = ''HTTP client instrumentation''\<rparr>,
      \<lparr>ex_number = ''11'', ex_title = ''Custom HTTP Adapters'', ex_description = ''Creating custom HTTP adapters''\<rparr>,
      \<lparr>ex_number = ''12'', ex_title = ''HTTP + Redis + Axios'', ex_description = ''Full-stack with Express''\<rparr>,
      \<lparr>ex_number = ''13'', ex_title = ''HTTP + Redis + Fastify'', ex_description = ''Full-stack with Fastify''\<rparr>]\<rparr>,
    \<lparr>cat_title = ''Message Broker Examples (20-24)'',
     cat_description = ''Advanced patterns with message brokers'',
     cat_examples = [
      \<lparr>ex_number = ''20'', ex_title = ''Basic Kafka Correlation'', ex_description = ''Kafka integration''\<rparr>,
      \<lparr>ex_number = ''21'', ex_title = ''Basic RabbitMQ Broker'', ex_description = ''RabbitMQ integration''\<rparr>,
      \<lparr>ex_number = ''22'', ex_title = ''Basic NATS Broker'', ex_description = ''NATS integration''\<rparr>,
      \<lparr>ex_number = ''23'', ex_title = ''Kafka Full Stack'', ex_description = ''Complete Kafka application''\<rparr>,
      \<lparr>ex_number = ''24'', ex_title = ''NATS Full Stack'', ex_description = ''Complete NATS microservices''\<rparr>]\<rparr>]"

text \<open>
  A feature of the home page. \<open>Svg\<close> is the component a \<open>require\<close> of an image
  module gives (named here by the path required); \<open>description\<close> is a JSX fragment.
\<close>

record FeatureItem =
  feat_title :: string
  feat_Svg :: string
  feat_description :: element

definition FeatureList :: "FeatureItem list" where
  "FeatureList = [
    \<lparr>feat_title = ''Zero Boilerplate'',
     feat_Svg = ''@site/static/img/undraw_docusaurus_mountain.svg'',
     feat_description = Elem ''Fragment'' [] [Text
       ''Get started in 30 seconds with automatic context propagation and structured logging. Focus on your business logic, not observability setup.'']\<rparr>,
    \<lparr>feat_title = ''Automatic Correlation'',
     feat_Svg = ''@site/static/img/undraw_docusaurus_tree.svg'',
     feat_description = Elem ''Fragment'' [] [Text
       ''Distributed tracing with automatic correlation IDs across services, HTTP calls, and message brokers. Zero configuration required.'']\<rparr>,
    \<lparr>feat_title = ''Framework Agnostic'',
     feat_Svg = ''@site/static/img/undraw_docusaurus_react.svg'',
     feat_description = Elem ''Fragment'' [] [Text
       ''Works seamlessly with Express, Fastify, Koa, NestJS, and any Node.js application. No vendor lock-in, no framework dependencies.'']\<rparr>]"

text \<open>The six features of the second home page component (\<open>src/unnamed/part_001\<close>).\<close>

definition FeatureList_part_001 :: "FeatureItem list" where
  "FeatureList_part_001 = [
    \<lparr>feat_title = [CHR 0xF0, CHR 0x9F, CHR 0x9A, CHR 0x80] @ '' Production Ready'',
     feat_Svg = ''@site/static/img/undraw_docusaurus_mountain.svg'',
     feat_description = Elem ''Fragment'' [] [Text
       ''94.1% test coverage, comprehensive examples, and battle-tested in production environments. Built for high-performance teams who need reliability.'']\<rparr>,
    \<lparr>feat_title = [CHR 0xF0, CHR 0x9F, CHR 0x94, CHR 0x84] @ '' Framework Agnostic'',
     feat_Svg = ''@site/static/img/undraw_docusaurus_tree.svg'',
     feat_description = Elem ''Fragment'' [] [Text
       ''Works seamlessly across Express, Fastify, Koa, NestJS, and any Node.js application type. No vendor lock-in, no framework dependencies.'']\<rparr>,
    \<lparr>feat_title = [CHR 0xF0, CHR 0x9F, CHR 0x94, CHR 0x97] @ '' Automatic Correlation'',
     feat_Svg = ''@site/static/img/undraw_docusaurus_react.svg'',
     feat_description = Elem ''Fragment'' [] [Text
       ''Distributed tracing with correlation IDs across services, HTTP calls, and message brokers. Zero configuration required.'']\<rparr>,
    \<lparr>feat_title = [CHR 0xF0, CHR 0x9F, CHR 0x8E, CHR 0xAF] @ '' Zero Boilerplate'',
     feat_Svg = ''@site/static/img/undraw_docusaurus_mountain.svg'',
     feat_description = Elem ''Fragment'' [] [Text
       ''Get started in 30 seconds with automatic context propagation and structured logging. Focus on your business logic, not observability setup.'']\<rparr>,
    \<lparr>feat_title = [CHR 0xF0, CHR 0x9F, CHR 0x9B, CHR 0xA1, CHR 0xEF, CHR 0xB8, CHR 0x8F] @ '' Security First'',
     feat_Svg = ''@site/static/img/undraw_docusaurus_tree.svg'',
     feat_description = Elem ''Fragment'' [] [Text
       ''Built-in data masking, secure configurations, and compliance-ready logging. Protect sensitive data automatically.'']\<rparr>,
    \<lparr>feat_title = [CHR 0xE2, CHR 0x9A, CHR 0xA1] @ '' High Performance'',
     feat_Svg = ''@site/static/img/undraw_docusaurus_react.svg'',
     feat_description = Elem ''Fragment'' [] [Text
       ''Optimized for production with minimal overhead and intelligent log scoping. 45,000+ ops/sec with less than 1ms latency.'']\<rparr>]"

section \<open>Module state and rendering\<close>

text \<open>
  A module-level \<open>const\<close> binds a name to an array object that any code holding it
  could write to, so the arrays live in a state that every component takes and returns.
  \<open>m_styles\<close> is the CSS module \<open>./styles.module.css\<close> of the TypeScript home page
  component (from a class name to the generated one); its file is not among the sources,
  so it is a field of the state with no fixed value.
\<close>

record module_state =
  m_styles :: "string \<Rightarrow> string"
  m_FeatureList :: "FeatureItem list"
  m_FeatureList_part_001 :: "FeatureItem list"
  m_ExampleCategories :: "category list"

definition initial_state :: "(string \<Rightarrow> string) \<Rightarrow> module_state" where
  "initial_state styles =
     \<lparr>m_styles = styles, m_FeatureList = FeatureList,
      m_FeatureList_part_001 = FeatureList_part_001,
      m_ExampleCategories = ExampleCategories\<rparr>"

text \<open>
  \<open>Array.prototype.map\<close> calls the callback on each element with its index, from the
  left, and collects the results in a new array.
\<close>

fun Array_map_from ::
  "nat \<Rightarrow> ('a \<Rightarrow> nat \<Rightarrow> 's \<Rightarrow> 'b \<times> 's) \<Rightarrow> 'a list \<Rightarrow> 's \<Rightarrow> 'b list \<times> 's" where
  "Array_map_from i cb [] s = ([], s)"
| "Array_map_from i cb (x # xs) s =
     (case cb x i s of (y, s1) \<Rightarrow>
        (case Array_map_from (Suc i) cb xs s1 of (ys, s2) \<Rightarrow> (y # ys, s2)))"

definition Array_map ::
  "('a \<Rightarrow> nat \<Rightarrow> 's \<Rightarrow> 'b \<times> 's) \<Rightarrow> 'a list \<Rightarrow> 's \<Rightarrow> 'b list \<times> 's" where
  "Array_map cb xs s = Array_map_from 0 cb xs s"

text \<open>
  A component of the repository used in JSX: the node carries the component's name and
  the props that are not passed on (\<open>key\<close>), and holds what the component returns.
\<close>

definition component ::
  "string \<Rightarrow> (string \<times> pval) list \<Rightarrow> ('s \<Rightarrow> element \<times> 's) \<Rightarrow> 's \<Rightarrow> element \<times> 's" where
  "component name attrs body s = (case body s of (e, s1) \<Rightarrow> (Elem name attrs [e], s1))"

text \<open>
  \<open>useDocusaurusContext\<close> is the site generator's hook: it reads the context of the
  running site. Both callers bind \<open>siteConfig\<close> from it and never use it.
\<close>

definition useDocusaurusContext :: "module_state \<Rightarrow> unit \<times> module_state" where
  "useDocusaurusContext s = ((), s)"

subsection \<open>\<open>src/components/HomepageFeatures/index.tsx\<close>\<close>

definition Feature :: "FeatureItem \<Rightarrow> module_state \<Rightarrow> element \<times> module_state" where
  "Feature props s =
     (Elem ''div'' [(''className'', S (clsx [''col col--4'']))] [
        Elem ''div'' [(''className'', S ''text--center'')] [
          Elem (feat_Svg props)
            [(''className'', S (m_styles s ''featureSvg'')), (''role'', S ''img'')] []],
        Elem ''div'' [(''className'', S ''text--center padding-horiz--md'')] [
          Elem ''Heading'' [(''as'', S ''h3'')] [Text (feat_title props)],
          Elem ''p'' [] [feat_description props]]], s)"

definition HomepageFeatures :: "module_state \<Rightarrow> element \<times> module_state" where
  "HomepageFeatures s =
     (case Array_map (\<lambda>props idx. component ''Feature'' [(''key'', N idx)] (Feature props))
             (m_FeatureList s) s of
        (cards, s1) \<Rightarrow>
          (Elem ''section'' [(''className'', S (m_styles s ''features''))] [
             Elem ''div'' [(''className'', S ''container'')] [
               Elem ''div'' [(''className'', S ''row'')] cards]], s1))"

subsection \<open>\<open>src/unnamed/part_001\<close>\<close>

definition Feature_part_001 :: "FeatureItem \<Rightarrow> module_state \<Rightarrow> element \<times> module_state" where
  "Feature_part_001 props s =
     (Elem ''div'' [(''className'', S (clsx [''col col--4'']))] [
        Elem ''div'' [(''className'', S ''text--center'')] [
          Elem (feat_Svg props)
            [(''className'', S (clsx [''featureSvg''])), (''role'', S ''img'')] []],
        Elem ''div'' [(''className'', S ''text--center padding-horiz--md'')] [
          Elem ''Heading'' [(''as'', S ''h3'')] [Text (feat_title props)],
          Elem ''p'' [] [feat_description props]]], s)"

definition HomepageFeatures_part_001 :: "module_state \<Rightarrow> element \<times> module_state" where
  "HomepageFeatures_part_001 s =
     (case Array_map
             (\<lambda>props idx. component ''Feature'' [(''key'', N idx)] (Feature_part_001 props))
             (m_FeatureList_part_001 s) s of
        (cards, s1) \<Rightarrow>
          (Elem ''section'' [(''className'', S (clsx [''margin-top--xl'']))] [
             Elem ''div'' [(''className'', S ''container'')] [
               Elem ''div'' [(''className'', S ''row'')] cards]], s1))"

subsection \<open>The examples page, \<open>src/unnamed/part_000\<close>\<close>

text \<open>
  This version of the page renders the array \<open>ExampleCategories\<close>. The page of
  \<open>src/pages/examples.tsx\<close> is fixed markup: it has no array, no card and no internal
  link.
\<close>

definition ExamplesHeader :: "module_state \<Rightarrow> element \<times> module_state" where
  "ExamplesHeader s =
     (case useDocusaurusContext s of
        (siteConfig, s1) \<Rightarrow>
          (Elem ''header'' [(''className'', S (clsx [''hero hero--primary'']))] [
             Elem ''div'' [(''className'', S ''container'')] [
               Elem ''Heading'' [(''as'', S ''h1''), (''className'', S ''hero__title'')]
                 [Text ''Examples''],
               Elem ''p'' [(''className'', S ''hero__subtitle'')]
                 [Text ''Learn SyntropyLog progressively with real-world examples'']]], s1))"

text \<open>The target of the card's link: the template literal of \<open>ExampleCard\<close>.\<close>

definition ExampleCard_to :: "example \<Rightarrow> string" where
  "ExampleCard_to example =
     ''/docs/examples/'' @ replace '' '' ''-'' (toLowerCase (ex_number example))"

definition ExampleCard :: "example \<Rightarrow> module_state \<Rightarrow> element \<times> module_state" where
  "ExampleCard example s =
     (Elem ''div'' [(''className'', S ''col col--4 margin-bottom--lg'')] [
        Elem ''div'' [(''className'', S ''card'')] [
          Elem ''div'' [(''className'', S ''card__header'')] [
            Elem ''h3'' [] [Text (ex_number example), Text '' - '', Text (ex_title example)]],
          Elem ''div'' [(''className'', S ''card__body'')] [
            Elem ''p'' [] [Text (ex_description example)]],
          Elem ''div'' [(''className'', S ''card__footer'')] [
            Elem ''Link''
              [(''className'', S ''button button--primary button--block''),
               (''to'', S (ExampleCard_to example))]
              [Text ''View Example'']]]], s)"

definition ExampleCategory :: "category \<Rightarrow> module_state \<Rightarrow> element \<times> module_state" where
  "ExampleCategory category s =
     (case Array_map
             (\<lambda>example idx. component ''ExampleCard'' [(''key'', N idx)] (ExampleCard example))
             (cat_examples category) s of
        (cards, s1) \<Rightarrow>
          (Elem ''div'' [(''className'', S ''margin-bottom--xl'')] [
             Elem ''Heading'' [(''as'', S ''h2'')] [Text (cat_title category)],
             Elem ''p'' [(''className'', S ''margin-bottom--lg'')] [Text (cat_description category)],
             Elem ''div'' [(''className'', S ''row'')] cards], s1))"

definition check_mark :: string where
  "check_mark = [CHR 0xE2, CHR 0x9C, CHR 0x85]"

definition running_examples :: element where
  "running_examples =
     Elem ''div''
       [(''className'', S ''margin-top--xl padding--lg''),
        (''style'', Obj [(''backgroundColor'', ''var(--ifm-color-emphasis-100)''),
                         (''borderRadius'', ''8px'')])] [
       Elem ''Heading'' [(''as'', S ''h2'')] [Text ''Running Examples''],
       Elem ''p'' [] [Text ''Each example includes:''],
       Elem ''ul'' [] [
         Elem ''li'' [] [Text (check_mark @ '' ''),
           Elem ''strong'' [] [Text ''Complete source code''], Text '' - Ready to run''],
         Elem ''li'' [] [Text (check_mark @ '' ''),
           Elem ''strong'' [] [Text ''Docker setup''],
           Text '' - For services like Redis, Kafka, etc.''],
         Elem ''li'' [] [Text (check_mark @ '' ''),
           Elem ''strong'' [] [Text ''Step-by-step instructions''],
           Text '' - Clear explanations''],
         Elem ''li'' [] [Text (check_mark @ '' ''),
           Elem ''strong'' [] [Text ''Expected output''], Text '' - Know what to expect'']],
       Elem ''Heading'' [(''as'', S ''h3'')] [Text ''Quick Start''],
       Elem ''div'' [(''className'', S ''margin-bottom--md'')] [
         Elem ''code'' [] [
           Text ''# Navigate to any example'', Elem ''br'' [] [],
           Text ''cd sub-modules/examples/01-hello-world'', Elem ''br'' [] [], Elem ''br'' [] [],
           Text ''# Install dependencies'', Elem ''br'' [] [],
           Text ''npm install'', Elem ''br'' [] [], Elem ''br'' [] [],
           Text ''# Run the example'', Elem ''br'' [] [],
           Text ''npm start'']]]"

definition Examples :: "module_state \<Rightarrow> element \<times> module_state" where
  "Examples s =
     (case useDocusaurusContext s of
        (siteConfig, s1) \<Rightarrow>
     (case component ''ExamplesHeader'' [] ExamplesHeader s1 of
        (header, s2) \<Rightarrow>
     (case Array_map
             (\<lambda>category idx.
                component ''ExampleCategory'' [(''key'', N idx)] (ExampleCategory category))
             (m_ExampleCategories s2) s2 of
        (sections, s3) \<Rightarrow>
          (Elem ''Layout''
             [(''title'', S ''Examples - SyntropyLog''),
              (''description'', S ''Learn SyntropyLog progressively with real-world examples'')] [
             header,
             Elem ''main'' [] [
               Elem ''div'' [(''className'', S ''container margin-top--xl'')]
                 (sections @ [running_examples])]], s3))))"

section \<open>Site configuration\<close>

text \<open>
  The two configuration modules, \<open>docusaurus.config.ts\<close> and \<open>docusaurus.config.js\<close>,
  each build one object literal for the site generator. A key that only one of them sets
  is an \<open>option\<close>.

  The TypeScript module takes its code-highlight themes from a static import,
  \<open>prismThemes.github\<close> and \<open>prismThemes.dracula\<close>, kept by name. The JavaScript
  module asks Node at run time: \<open>require(request)\<close> for the two themes and
  \<open>require.resolve(request)\<close> for two paths. Node resolves a request to the absolute
  name of a file, which depends on the directory the site is checked out in, and throws
  \<open>MODULE_NOT_FOUND\<close> when there is no such file. The environment of an evaluation is
  therefore a partial map from requests to file names; \<open>require.resolve\<close> returns the
  file name and \<open>require\<close> what that file exports.
\<close>

datatype error = MODULE_NOT_FOUND string

record custom_fields =
  cf_version :: string
  cf_releaseDate :: string

record i18n_config =
  defaultLocale :: string
  locales :: "string list"

datatype path_ref = Relative string | Resolved string

record docs_options =
  sidebarPath :: path_ref
  docs_editUrl :: string

record blog_options =
  showReadingTime :: bool
  blog_editUrl :: string

text \<open>\<open>blog: false\<close> switches the blog off; an options object switches it on.\<close>

datatype blog_setting = BlogFalse | BlogOptions blog_options

record theme_options =
  customCss :: path_ref

record preset_options =
  docs :: docs_options
  blog :: blog_setting
  theme :: theme_options

record logo =
  logo_alt :: string
  logo_src :: string
  logo_width :: nat
  logo_height :: nat

text \<open>
  A navbar item is one of four shapes: \<open>{type: 'docSidebar', sidebarId, position, label}\<close>,
  \<open>{to, label, position}\<close>, \<open>{href, label, position}\<close> and
  \<open>{type: 'html', position, value}\<close>. A footer item is \<open>{label, to}\<close> or
  \<open>{label, href}\<close>.
\<close>

datatype navbar_item =
    DocSidebar string string string
  | NavTo string string string
  | NavHref string string string
  | NavHtml string string

datatype footer_item = FooterTo string string | FooterHref string string

record navbar_config =
  navbar_title :: string
  navbar_logo :: logo
  navbar_items :: "navbar_item list"

record footer_column =
  column_title :: string
  column_items :: "footer_item list"

record footer_config =
  footer_style :: string
  footer_links :: "footer_column list"
  copyright :: string

text \<open>
  A theme is \<open>prismThemes.name\<close> of the static import, or the exports of the module
  file a \<open>require\<close> was resolved to.
\<close>

datatype theme_ref = PrismThemes string | ThemeModule string

record prism_config =
  prism_theme :: theme_ref
  prism_darkTheme :: theme_ref
  additionalLanguages :: "string list option"

record color_mode =
  defaultMode :: string
  disableSwitch :: bool
  respectPrefersColorScheme :: bool

record theme_config =
  social_image :: string
  navbar :: navbar_config
  footer :: footer_config
  prism :: prism_config
  colorMode :: "color_mode option"

record config =
  title :: string
  tagline :: string
  favicon :: string
  customFields :: "custom_fields option"
  future_v4 :: "bool option"
  url :: string
  baseUrl :: string
  organizationName :: string
  projectName :: string
  onBrokenLinks :: string
  onBrokenMarkdownLinks :: string
  i18n :: i18n_config
  presets :: "(string \<times> preset_options) list"
  themeConfig :: theme_config

text \<open>
  The footer's copyright is a template literal holding \<open>new Date().getFullYear()\<close>:
  the year of the clock at the moment the module is evaluated, an integer, written in
  decimal (with a minus sign below zero) when the literal turns it into a string. The
  configuration is therefore a function of that year.
\<close>

definition digit_char :: "nat \<Rightarrow> char" where
  "digit_char d = char_of (48 + d)"

function decimal :: "nat \<Rightarrow> string" where
  "decimal n = (if n < 10 then [digit_char n] else decimal (n div 10) @ [digit_char (n mod 10)])"
  by pat_completeness auto
termination
  by (relation "measure (\<lambda>n. n)") auto

definition Number_toString :: "int \<Rightarrow> string" where
  "Number_toString n = (if n < 0 then ''-'' @ decimal (nat (- n)) else decimal (nat n))"

definition copyright_sign :: string where
  "copyright_sign = [CHR 0xC2, CHR 0xA9]"

subsection \<open>\<open>docusaurus.config.ts\<close>\<close>

definition LATEST_VERSION :: string where
  "LATEST_VERSION = ''0.7.0''"

definition config_ts :: "int \<Rightarrow> config" where
  "config_ts year =
    \<lparr>title = ''SyntropyLog'',
     tagline = ''From Chaos to Clarity - The Observability Framework for High-Performance Teams'',
     favicon = ''/favicon.ico'',
     customFields = Some \<lparr>cf_version = LATEST_VERSION, cf_releaseDate = ''2025-07-25''\<rparr>,
     future_v4 = Some True,
     url = ''https://syntropysoft.com'',
     baseUrl = ''/syntropylog-doc/'',
     organizationName = ''Syntropysoft'',
     projectName = ''syntropylog-doc'',
     onBrokenLinks = ''throw'',
     onBrokenMarkdownLinks = ''warn'',
     i18n = \<lparr>defaultLocale = ''en'', locales = [''en'']\<rparr>,
     presets = [
       (''classic'',
        \<lparr>docs = \<lparr>sidebarPath = Relative ''./sidebars.ts'',
                  docs_editUrl = ''https://github.com/Syntropysoft/SyntropyLog/tree/main/docs-docusaurus/''\<rparr>,
         blog = BlogFalse,
         theme = \<lparr>customCss = Relative ''./src/css/custom.css''\<rparr>\<rparr>)],
     themeConfig =
       \<lparr>social_image = ''img/syntropylog-social-card.jpg'',
        navbar =
          \<lparr>navbar_title = ''SyntropyLog'',
           navbar_logo = \<lparr>logo_alt = ''SyntropyLog Logo'', logo_src = ''img/beaconLog-2-new.png'',
                          logo_width = 40, logo_height = 40\<rparr>,
           navbar_items = [
             DocSidebar ''tutorialSidebar'' ''left'' ''Documentation'',
             NavTo ''/examples'' ''Examples'' ''left'',
             NavHref ''https://github.com/Syntropysoft/SyntropyLog'' ''GitHub'' ''right'',
             NavHref ''https://www.npmjs.com/package/syntropylog'' ''NPM'' ''right'',
             NavHtml ''right''
               (''<span class=\"version-badge\">v'' @ LATEST_VERSION @ ''</span>'')]\<rparr>,
        footer =
          \<lparr>footer_style = ''dark'',
           footer_links = [
             \<lparr>column_title = ''Documentation'',
              column_items = [
                FooterTo ''Getting Started'' ''/docs/getting-started'',
                FooterTo ''API Reference'' ''/docs/api-reference/'',
                FooterTo ''Examples'' ''/examples'']\<rparr>,
             \<lparr>column_title = ''Community'',
              column_items = [
                FooterHref ''GitHub'' ''https://github.com/Syntropysoft/SyntropyLog'',
                FooterHref ''NPM Package'' ''https://www.npmjs.com/package/syntropylog'',
                FooterHref ''Issues'' ''https://github.com/Syntropysoft/SyntropyLog/issues'']\<rparr>,
             \<lparr>column_title = ''Resources'',
              column_items = [
                FooterHref ''Examples Repository''
                  ''https://github.com/Syntropysoft/syntropylog-examples-'',
                FooterHref ''Adapters Package''
                  ''https://www.npmjs.com/package/@syntropylog/adapters'']\<rparr>],
           copyright =
             ''Copyright '' @ copyright_sign @ '' '' @ Number_toString year
               @ '' Syntropysoft. Built with Docusaurus.''\<rparr>,
        prism =
          \<lparr>prism_theme = PrismThemes ''github'', prism_darkTheme = PrismThemes ''dracula'',
           additionalLanguages = None\<rparr>,
        colorMode = None\<rparr>\<rparr>"

subsection \<open>\<open>docusaurus.config.js\<close>\<close>

definition require_resolve :: "(string \<Rightarrow> string option) \<Rightarrow> string \<Rightarrow> error + string" where
  "require_resolve env request =
     (case env request of
        None \<Rightarrow> Inl (MODULE_NOT_FOUND request)
      | Some filename \<Rightarrow> Inr filename)"

definition require :: "(string \<Rightarrow> string option) \<Rightarrow> string \<Rightarrow> error + theme_ref" where
  "require env request =
     (case require_resolve env request of
        Inl e \<Rightarrow> Inl e
      | Inr filename \<Rightarrow> Inr (ThemeModule filename))"

text \<open>
  The object literal \<open>config\<close>, given the two themes bound at the top of the module, the
  values of its two \<open>require.resolve\<close> calls and the year of the clock.
\<close>

definition config_js_object ::
  "theme_ref \<Rightarrow> theme_ref \<Rightarrow> string \<Rightarrow> string \<Rightarrow> int \<Rightarrow> config" where
  "config_js_object lightCodeTheme darkCodeTheme sidebars_js custom_css year =
    \<lparr>title = ''SyntropyLog'',
     tagline = ''The Observability Framework for High-Performance Teams'',
     favicon = ''./assets/favicon.ico'',
     customFields = None,
     future_v4 = None,
     url = ''https://syntropylog.com'',
     baseUrl = ''/syntropylog-doc/'',
     organizationName = ''Syntropysoft'',
     projectName = ''SyntropyLog'',
     onBrokenLinks = ''throw'',
     onBrokenMarkdownLinks = ''warn'',
     i18n = \<lparr>defaultLocale = ''en'', locales = [''en'']\<rparr>,
     presets = [
       (''classic'',
        \<lparr>docs = \<lparr>sidebarPath = Resolved sidebars_js,
                  docs_editUrl = ''https://github.com/Syntropysoft/SyntropyLog/tree/main/docs-docusaurus/''\<rparr>,
         blog = BlogOptions
           \<lparr>showReadingTime = True,
            blog_editUrl = ''https://github.com/Syntropysoft/SyntropyLog/tree/main/docs-docusaurus/''\<rparr>,
         theme = \<lparr>customCss = Resolved custom_css\<rparr>\<rparr>)],
     themeConfig =
       \<lparr>social_image = ''img/syntropylog-social-card.jpg'',
        navbar =
          \<lparr>navbar_title = ''SyntropyLog'',
           navbar_logo = \<lparr>logo_alt = ''SyntropyLog Logo'', logo_src = ''img/beaconLog-2-new.png'',
                          logo_width = 40, logo_height = 40\<rparr>,
           navbar_items = [
             DocSidebar ''tutorialSidebar'' ''left'' ''Documentation'',
             NavTo ''/examples'' ''Examples'' ''left'',
             NavTo ''/api'' ''API'' ''left'',
             NavTo ''/quality'' ''Quality'' ''left'',
             NavHref ''https://github.com/Syntropysoft/SyntropyLog'' ''GitHub'' ''right'']\<rparr>,
        footer =
          \<lparr>footer_style = ''dark'',
           footer_links = [
             \<lparr>column_title = ''Docs'',
              column_items = [
                FooterTo ''Getting Started'' ''/docs/getting-started'',
                FooterTo ''Examples'' ''/examples'',
                FooterTo ''API Reference'' ''/api'']\<rparr>,
             \<lparr>column_title = ''Community'',
              column_items = [
                FooterHref ''GitHub'' ''https://github.com/Syntropysoft/SyntropyLog'',
                FooterHref ''Issues'' ''https://github.com/Syntropysoft/SyntropyLog/issues'',
                FooterHref ''Discussions''
                  ''https://github.com/Syntropysoft/SyntropyLog/discussions'']\<rparr>,
             \<lparr>column_title = ''More'',
              column_items = [
                FooterTo ''Quality & CI/CD'' ''/quality'',
                FooterHref ''NPM Package'' ''https://www.npmjs.com/package/syntropylog'',
                FooterHref ''Adapters Package''
                  ''https://www.npmjs.com/package/@syntropylog/adapters'']\<rparr>],
           copyright =
             ''Copyright '' @ copyright_sign @ '' '' @ Number_toString year
               @ '' SyntropySoft. Built with Docusaurus.''\<rparr>,
        prism =
          \<lparr>prism_theme = lightCodeTheme,
           prism_darkTheme = darkCodeTheme,
           additionalLanguages = Some [''typescript'', ''bash'', ''json'']\<rparr>,
        colorMode = Some
          \<lparr>defaultMode = ''light'', disableSwitch = False,
           respectPrefersColorScheme = True\<rparr>\<rparr>\<rparr>"

text \<open>
  Evaluating the module, in the order of the source: the two \<open>require\<close> calls of lines
  4 and 5, then the object literal with its \<open>require.resolve\<close> calls of lines 41 and
  55. The first request that does not resolve ends the evaluation with its error.
\<close>

definition config_js :: "(string \<Rightarrow> string option) \<Rightarrow> int \<Rightarrow> error + config" where
  "config_js env year =
     (case require env ''prism-react-renderer/themes/github'' of
        Inl e \<Rightarrow> Inl e
      | Inr lightCodeTheme \<Rightarrow>
     (case require env ''prism-react-renderer/themes/dracula'' of
        Inl e \<Rightarrow> Inl e
      | Inr darkCodeTheme \<Rightarrow>
     (case require_resolve env ''./sidebars.js'' of
        Inl e \<Rightarrow> Inl e
      | Inr sidebars_js \<Rightarrow>
     (case require_resolve env ''./src/css/custom.css'' of
        Inl e \<Rightarrow> Inl e
      | Inr custom_css \<Rightarrow>
          Inr (config_js_object lightCodeTheme darkCodeTheme sidebars_js custom_css year)))))"


text \<open>
  An environment for the examples below: the site checked out in directory \<open>dir\<close> with
  the theme package installed beside it, so that each of the four requests resolves to a
  file under \<open>dir\<close> and nothing else resolves.
\<close>

definition checkout_env :: "string \<Rightarrow> string \<Rightarrow> string option" where
  "checkout_env dir =
     map_of [
       (''prism-react-renderer/themes/github'',
        dir @ ''/node_modules/prism-react-renderer/themes/github/index.js''),
       (''prism-react-renderer/themes/dracula'',
        dir @ ''/node_modules/prism-react-renderer/themes/dracula/index.js''),
       (''./sidebars.js'', dir @ ''/sidebars.js''),
       (''./src/css/custom.css'', dir @ ''/src/css/custom.css'')]"

subsection \<open>Reading a configuration\<close>

text \<open>The \<open>value\<close> strings of the navbar's \<open>html\<close> items.\<close>

fun html_values :: "navbar_item list \<Rightarrow> string list" where
  "html_values [] = []"
| "html_values (NavHtml position v # items) = v # html_values items"
| "html_values (item # items) = html_values items"

text \<open>
  The text an HTML string displays: what stands outside its tags. The flag says whether
  the position is inside a tag.
\<close>

fun strip_tags :: "bool \<Rightarrow> string \<Rightarrow> string" where
  "strip_tags in_tag [] = []"
| "strip_tags in_tag (c # cs) =
     (if c = CHR ''<'' then strip_tags True cs
      else if c = CHR ''>'' then strip_tags False cs
      else if in_tag then strip_tags in_tag cs
      else c # strip_tags in_tag cs)"

definition text_content :: "string \<Rightarrow> string" where
  "text_content html = strip_tags False html"

text \<open>Whether a preset's options switch the blog on.\<close>

fun blog_enabled :: "blog_setting \<Rightarrow> bool" where
  "blog_enabled BlogFalse = False"
| "blog_enabled (BlogOptions opts) = True"

text \<open>The blog settings of a configuration's \<open>classic\<close> presets.\<close>

definition classic_blog :: "config \<Rightarrow> blog_setting list" where
  "classic_blog c = map (\<lambda>p. blog (snd p)) (filter (\<lambda>p. fst p = ''classic'') (presets c))"

text \<open>
  The build-time surface of a configuration: site title, production url, base url,
  organization name, project name, locale list, the two broken-link policies, and whether
  the classic preset has the blog on.
\<close>

definition build_surface ::
  "config \<Rightarrow> string \<times> string \<times> string \<times> string \<times> string \<times> string list \<times> string \<times> string \<times> bool list" where
  "build_surface c =
     (title c, url c, baseUrl c, organizationName c, projectName c, locales (i18n c),
      onBrokenLinks c, onBrokenMarkdownLinks c, map blog_enabled (classic_blog c))"


section \<open>Properties of the string functions\<close>

lemma digit_toLowerCase_char: "is_digit c \<Longrightarrow> toLowerCase_char c = c"
  by (simp add: is_digit_def toLowerCase_char_def Let_def)

lemma space_not_digit: "\<not> is_digit (CHR '' '')"
  by (simp add: is_digit_def)


lemma replace_absent: "c \<notin> set s \<Longrightarrow> replace [c] rep s = s"
  by (induction s) auto

lemma digits_toLowerCase: "list_all is_digit n \<Longrightarrow> toLowerCase n = n"
  unfolding toLowerCase_def by (induction n) (auto simp: digit_toLowerCase_char)

lemma digits_no_space: "list_all is_digit n \<Longrightarrow> CHR '' '' \<notin> set n"
  by (induction n) (auto simp: space_not_digit)

lemma digits_link: "list_all is_digit n \<Longrightarrow> replace '' '' ''-'' (toLowerCase n) = n"
  by (simp add: digits_toLowerCase digits_no_space replace_absent)









section \<open>Properties of rendering\<close>

text \<open>A callback that returns the state it was given makes \<open>Array_map\<close> a plain map.\<close>

lemma Array_map_from_frame:
  assumes "\<And>x i s. snd (cb x i s) = s"
  shows "Array_map_from i cb xs s = (map (\<lambda>(j, x). fst (cb x j s)) (enumerate i xs), s)"
proof (induction xs arbitrary: i)
  case Nil
  show ?case by simp
next
  case (Cons x xs)
  obtain y s1 where c: "cb x i s = (y, s1)" by (cases "cb x i s")
  with assms [of x i s] have "s1 = s" by simp
  with c show ?case using Cons.IH [of "Suc i"] by simp
qed

lemma component_frame:
  "snd (body s) = s \<Longrightarrow> component name attrs body s = (Elem name attrs [fst (body s)], s)"
  by (cases "body s") (simp add: component_def)

lemma Feature_frame: "snd (Feature p s) = s"
  by (simp add: Feature_def)

lemma Feature_part_001_frame: "snd (Feature_part_001 p s) = s"
  by (simp add: Feature_part_001_def)

lemma ExampleCard_frame: "snd (ExampleCard e s) = s"
  by (simp add: ExampleCard_def)

lemma ExamplesHeader_frame: "snd (ExamplesHeader s) = s"
  by (simp add: ExamplesHeader_def useDocusaurusContext_def)

lemma HomepageFeatures_eq:
  "HomepageFeatures s =
     (Elem ''section'' [(''className'', S (m_styles s ''features''))] [
        Elem ''div'' [(''className'', S ''container'')] [
          Elem ''div'' [(''className'', S ''row'')]
            (map (\<lambda>(idx, props). Elem ''Feature'' [(''key'', N idx)] [fst (Feature props s)])
               (enumerate 0 (m_FeatureList s)))]], s)"
  by (simp add: HomepageFeatures_def Array_map_def Array_map_from_frame component_frame
      Feature_frame case_prod_beta)

lemma HomepageFeatures_part_001_eq:
  "HomepageFeatures_part_001 s =
     (Elem ''section'' [(''className'', S ''margin-top--xl'')] [
        Elem ''div'' [(''className'', S ''container'')] [
          Elem ''div'' [(''className'', S ''row'')]
            (map (\<lambda>(idx, props).
                    Elem ''Feature'' [(''key'', N idx)] [fst (Feature_part_001 props s)])
               (enumerate 0 (m_FeatureList_part_001 s)))]], s)"
  by (simp add: HomepageFeatures_part_001_def Array_map_def Array_map_from_frame
      component_frame Feature_part_001_frame case_prod_beta)

lemma ExampleCategory_eq:
  "ExampleCategory c s =
     (Elem ''div'' [(''className'', S ''margin-bottom--xl'')] [
        Elem ''Heading'' [(''as'', S ''h2'')] [Text (cat_title c)],
        Elem ''p'' [(''className'', S ''margin-bottom--lg'')] [Text (cat_description c)],
        Elem ''div'' [(''className'', S ''row'')]
          (map (\<lambda>(idx, e). Elem ''ExampleCard'' [(''key'', N idx)] [fst (ExampleCard e s)])
             (enumerate 0 (cat_examples c)))], s)"
  by (simp add: ExampleCategory_def Array_map_def Array_map_from_frame component_frame
      ExampleCard_frame case_prod_beta)

lemma ExampleCategory_frame: "snd (ExampleCategory c s) = s"
  by (simp add: ExampleCategory_eq)

lemma Examples_eq:
  "Examples s =
     (Elem ''Layout''
        [(''title'', S ''Examples - SyntropyLog''),
         (''description'', S ''Learn SyntropyLog progressively with real-world examples'')] [
        Elem ''ExamplesHeader'' [] [fst (ExamplesHeader s)],
        Elem ''main'' [] [
          Elem ''div'' [(''className'', S ''container margin-top--xl'')]
            (map (\<lambda>(idx, c).
                    Elem ''ExampleCategory'' [(''key'', N idx)] [fst (ExampleCategory c s)])
               (enumerate 0 (m_ExampleCategories s)) @ [running_examples])]], s)"
  by (simp add: Examples_def useDocusaurusContext_def Array_map_def Array_map_from_frame
      component_frame ExampleCategory_frame ExamplesHeader_frame case_prod_beta)

text \<open>Searching a list of nodes that all carry the tag returns the list.\<close>

lemma find_tag_map_hit:
  "concat (map (find_tag t) (map (\<lambda>(i, x). Elem t (ps i x) (cs i x)) ys)) =
     map (\<lambda>(i, x). Elem t (ps i x) (cs i x)) ys"
  by (induction ys) auto

lemma ExamplesHeader_no_category: "find_tag ''ExampleCategory'' (fst (ExamplesHeader s)) = []"
  by (simp add: ExamplesHeader_def useDocusaurusContext_def)

lemma running_examples_no_category: "find_tag ''ExampleCategory'' running_examples = []"
  by (simp add: running_examples_def)

lemma HomepageFeatures_cards:
  "find_tag ''Feature'' (fst (HomepageFeatures s)) =
     map (\<lambda>(idx, props). Elem ''Feature'' [(''key'', N idx)] [fst (Feature props s)])
       (enumerate 0 (m_FeatureList s))"
  using find_tag_map_hit [of "''Feature''" "\<lambda>idx props. [(''key'', N idx)]"
      "\<lambda>idx props. [fst (Feature props s)]" "enumerate 0 (m_FeatureList s)"]
  by (simp add: HomepageFeatures_eq)

lemma HomepageFeatures_part_001_cards:
  "find_tag ''Feature'' (fst (HomepageFeatures_part_001 s)) =
     map (\<lambda>(idx, props). Elem ''Feature'' [(''key'', N idx)] [fst (Feature_part_001 props s)])
       (enumerate 0 (m_FeatureList_part_001 s))"
  using find_tag_map_hit [of "''Feature''" "\<lambda>idx props. [(''key'', N idx)]"
      "\<lambda>idx props. [fst (Feature_part_001 props s)]" "enumerate 0 (m_FeatureList_part_001 s)"]
  by (simp add: HomepageFeatures_part_001_eq)

lemma ExampleCategory_cards:
  "find_tag ''ExampleCard'' (fst (ExampleCategory c s)) =
     map (\<lambda>(idx, e). Elem ''ExampleCard'' [(''key'', N idx)] [fst (ExampleCard e s)])
       (enumerate 0 (cat_examples c))"
  using find_tag_map_hit [of "''ExampleCard''" "\<lambda>idx e. [(''key'', N idx)]"
      "\<lambda>idx e. [fst (ExampleCard e s)]" "enumerate 0 (cat_examples c)"]
  by (simp add: ExampleCategory_eq)

lemma Examples_sections:
  "find_tag ''ExampleCategory'' (fst (Examples s)) =
     map (\<lambda>(idx, c). Elem ''ExampleCategory'' [(''key'', N idx)] [fst (ExampleCategory c s)])
       (enumerate 0 (m_ExampleCategories s))"
  using find_tag_map_hit [of "''ExampleCategory''" "\<lambda>idx c. [(''key'', N idx)]"
      "\<lambda>idx c. [fst (ExampleCategory c s)]" "enumerate 0 (m_ExampleCategories s)"]
  by (simp add: Examples_eq ExamplesHeader_no_category running_examples_no_category)

lemma ExampleCard_link:
  "list_all is_digit (ex_number e) \<Longrightarrow>
   map (prop_value ''to'') (find_tag ''Link'' (fst (ExampleCard e s))) =
     [Some (S (''/docs/examples/'' @ ex_number e))]"
  by (simp add: ExampleCard_def ExampleCard_to_def digits_link)

section \<open>Properties of the example numbers\<close>

lemma example_numbers:
  "map ex_number (concat (map cat_examples ExampleCategories)) =
     [''00'', ''01'', ''02'', ''03'', ''04'', ''05'', ''06'', ''07'', ''08'', ''09'',
      ''10'', ''11'', ''12'', ''13'', ''20'', ''21'', ''22'', ''23'', ''24'']"
  by (simp add: ExampleCategories_def)

lemma example_numbers_two_digits:
  "list_all (\<lambda>n. length n = 2 \<and> list_all is_digit n)
     (map ex_number (concat (map cat_examples ExampleCategories)))"
  unfolding example_numbers by (simp add: is_digit_def)

lemma example_number_two_digits:
  assumes "c \<in> set ExampleCategories" and "e \<in> set (cat_examples c)"
  shows "length (ex_number e) = 2 \<and> list_all is_digit (ex_number e)"
proof -
  from assms have "ex_number e \<in> set (map ex_number (concat (map cat_examples ExampleCategories)))"
    by auto
  with example_numbers_two_digits show ?thesis
    unfolding list_all_iff by blast
qed

section \<open>Properties of the configurations\<close>




text \<open>The evaluation returns an object exactly when all four requests resolve.\<close>

lemma config_js_Inr_iff:
  "(config_js env year = Inr c) =
     (\<exists>l d s css.
        env ''prism-react-renderer/themes/github'' = Some l \<and>
        env ''prism-react-renderer/themes/dracula'' = Some d \<and>
        env ''./sidebars.js'' = Some s \<and>
        env ''./src/css/custom.css'' = Some css \<and>
        c = config_js_object (ThemeModule l) (ThemeModule d) s css year)"
  by (auto simp: config_js_def require_def require_resolve_def split: option.splits)

lemma config_js_checkout:
  "config_js (checkout_env dir) year =
     Inr (config_js_object
       (ThemeModule (dir @ ''/node_modules/prism-react-renderer/themes/github/index.js''))
       (ThemeModule (dir @ ''/node_modules/prism-react-renderer/themes/dracula/index.js''))
       (dir @ ''/sidebars.js'') (dir @ ''/src/css/custom.css'') year)"
  by (simp add: config_js_Inr_iff checkout_env_def)





section \<open>The claims\<close>

text \<open>
  C3. In both configuration objects the policy for broken internal links,
  \<open>onBrokenLinks\<close>, is \<open>'throw'\<close>, and the policy for broken links in Markdown,
  \<open>onBrokenMarkdownLinks\<close>, is \<open>'warn'\<close>: in the TypeScript object for every year of
  evaluation, in the JavaScript object literal for every year and whatever its requests
  resolve to, and so in every object an evaluation of the JavaScript module returns.
\<close>

theorem broken_link_policies:
  "onBrokenLinks (config_ts year) = ''throw'' \<and>
   onBrokenMarkdownLinks (config_ts year) = ''warn'' \<and>
   onBrokenLinks (config_js_object l d s css year) = ''throw'' \<and>
   onBrokenMarkdownLinks (config_js_object l d s css year) = ''warn'' \<and>
   (\<forall>c. config_js env year = Inr c \<longrightarrow>
      onBrokenLinks c = ''throw'' \<and> onBrokenMarkdownLinks c = ''warn'')"
  by (auto simp: config_ts_def config_js_object_def config_js_Inr_iff)

text \<open>
  The theorem of C3 at a checkout in \<open>/site\<close> in 2025: the JavaScript module returns an
  object, and the object has the two policies.
\<close>

theorem broken_link_policies_witness:
  "(case config_js (checkout_env ''/site'') 2025 of
      Inl e \<Rightarrow> False
    | Inr c \<Rightarrow> onBrokenLinks c = ''throw'' \<and> onBrokenMarkdownLinks c = ''warn'')"
proof -
  obtain c where r: "config_js (checkout_env ''/site'') 2025 = Inr c"
    using config_js_checkout by blast
  from broken_link_policies [of 2025 _ _ _ _ "checkout_env ''/site''"] r
  have "onBrokenLinks c = ''throw'' \<and> onBrokenMarkdownLinks c = ''warn''" by blast
  with r show ?thesis by simp
qed



text \<open>
  C5, as stated, fails: the build-time surface of the object the JavaScript module
  returns (here at a checkout in \<open>/site\<close>) and that of the TypeScript object are
  different.
\<close>

theorem config_surfaces_differ_counterexample:
  "(case config_js (checkout_env ''/site'') 2025 of
      Inl e \<Rightarrow> False
    | Inr c \<Rightarrow> build_surface c \<noteq> build_surface (config_ts 2025))"
  by (simp add: config_js_checkout build_surface_def config_ts_def config_js_object_def)

text \<open>
  C5, amended. The two configurations agree on the site title, the base url, the
  organization name, the locale list and both broken-link policies. They differ in the
  production url, in the project name and in the blog of the classic preset, which the
  JavaScript configuration switches on and the TypeScript one switches off. This holds
  of the JavaScript object literal for every year and whatever its requests resolve to,
  and so of every object an evaluation of the JavaScript module returns.
\<close>

theorem config_surfaces_agreement:
  "title (config_js_object l d s css y1) = title (config_ts y2) \<and>
   baseUrl (config_js_object l d s css y1) = baseUrl (config_ts y2) \<and>
   organizationName (config_js_object l d s css y1) = organizationName (config_ts y2) \<and>
   locales (i18n (config_js_object l d s css y1)) = locales (i18n (config_ts y2)) \<and>
   onBrokenLinks (config_js_object l d s css y1) = onBrokenLinks (config_ts y2) \<and>
   onBrokenMarkdownLinks (config_js_object l d s css y1) =
     onBrokenMarkdownLinks (config_ts y2) \<and>
   url (config_js_object l d s css y1) = ''https://syntropylog.com'' \<and>
   url (config_ts y2) = ''https://syntropysoft.com'' \<and>
   projectName (config_js_object l d s css y1) = ''SyntropyLog'' \<and>
   projectName (config_ts y2) = ''syntropylog-doc'' \<and>
   map blog_enabled (classic_blog (config_js_object l d s css y1)) = [True] \<and>
   map blog_enabled (classic_blog (config_ts y2)) = [False] \<and>
   (\<forall>c. config_js env y1 = Inr c \<longrightarrow>
      title c = title (config_ts y2) \<and>
      baseUrl c = baseUrl (config_ts y2) \<and>
      organizationName c = organizationName (config_ts y2) \<and>
      locales (i18n c) = locales (i18n (config_ts y2)) \<and>
      onBrokenLinks c = onBrokenLinks (config_ts y2) \<and>
      onBrokenMarkdownLinks c = onBrokenMarkdownLinks (config_ts y2) \<and>
      url c = ''https://syntropylog.com'' \<and>
      projectName c = ''SyntropyLog'' \<and>
      map blog_enabled (classic_blog c) = [True])"
  by (auto simp: config_ts_def config_js_object_def classic_blog_def config_js_Inr_iff)

text \<open>
  The theorem of C5 at a checkout in \<open>/site\<close>, both modules evaluated in 2025: the
  JavaScript module returns an object, which agrees with the TypeScript object on the
  title and differs from it in the production url.
\<close>

theorem config_surfaces_agreement_witness:
  "(case config_js (checkout_env ''/site'') 2025 of
      Inl e \<Rightarrow> False
    | Inr c \<Rightarrow>
        title c = title (config_ts 2025) \<and> url c = ''https://syntropylog.com'' \<and>
        url (config_ts 2025) = ''https://syntropysoft.com'')"
proof -
  obtain c where r: "config_js (checkout_env ''/site'') 2025 = Inr c"
    using config_js_checkout by blast
  from config_surfaces_agreement [of _ _ _ _ 2025 2025 "checkout_env ''/site''"] r
  have "title c = title (config_ts 2025) \<and> url c = ''https://syntropylog.com'' \<and>
      url (config_ts 2025) = ''https://syntropysoft.com''" by blast
  with r show ?thesis by simp
qed

text \<open>
  C6. In any state, the \<open>Feature\<close> nodes of what \<open>HomepageFeatures\<close> renders are, in
  document order, one per entry of the feature array: the node of entry \<open>idx\<close> has key
  \<open>idx\<close> and holds the card \<open>Feature\<close> renders for that entry (both versions of the
  component). Likewise the \<open>ExampleCategory\<close> nodes of the examples page are one per
  entry of the category array, in order, and the \<open>ExampleCard\<close> nodes of a category's
  section are one per example of the category, in order. In the initial state the arrays
  are the hardcoded ones.
\<close>

theorem one_card_per_entry:
  "find_tag ''Feature'' (fst (HomepageFeatures s)) =
     map (\<lambda>(idx, props). Elem ''Feature'' [(''key'', N idx)] [fst (Feature props s)])
       (enumerate 0 (m_FeatureList s)) \<and>
   find_tag ''Feature'' (fst (HomepageFeatures_part_001 s)) =
     map (\<lambda>(idx, props). Elem ''Feature'' [(''key'', N idx)] [fst (Feature_part_001 props s)])
       (enumerate 0 (m_FeatureList_part_001 s)) \<and>
   find_tag ''ExampleCategory'' (fst (Examples s)) =
     map (\<lambda>(idx, c). Elem ''ExampleCategory'' [(''key'', N idx)] [fst (ExampleCategory c s)])
       (enumerate 0 (m_ExampleCategories s)) \<and>
   find_tag ''ExampleCard'' (fst (ExampleCategory c s)) =
     map (\<lambda>(idx, e). Elem ''ExampleCard'' [(''key'', N idx)] [fst (ExampleCard e s)])
       (enumerate 0 (cat_examples c)) \<and>
   m_FeatureList (initial_state styles) = FeatureList \<and>
   m_FeatureList_part_001 (initial_state styles) = FeatureList_part_001 \<and>
   m_ExampleCategories (initial_state styles) = ExampleCategories"
  by (simp only: HomepageFeatures_cards HomepageFeatures_part_001_cards Examples_sections
      ExampleCategory_cards simp_thms) (simp add: initial_state_def)

text \<open>
  C7. Every component returns the state it was given: rendering changes neither the
  feature arrays nor the category array nor anything else of the module state. Rendered
  from the initial state, the arrays are still the hardcoded ones.
\<close>

theorem rendering_leaves_state:
  "snd (HomepageFeatures s) = s \<and> snd (HomepageFeatures_part_001 s) = s \<and>
   snd (Examples s) = s \<and> snd (Feature props s) = s \<and>
   snd (Feature_part_001 props s) = s \<and> snd (ExampleCard e s) = s \<and>
   snd (ExampleCategory c s) = s \<and> snd (ExamplesHeader s) = s \<and>
   m_FeatureList (snd (HomepageFeatures (initial_state styles))) = FeatureList \<and>
   m_FeatureList_part_001 (snd (HomepageFeatures_part_001 (initial_state styles))) =
     FeatureList_part_001 \<and>
   m_ExampleCategories (snd (Examples (initial_state styles))) = ExampleCategories"
  by (simp add: HomepageFeatures_eq HomepageFeatures_part_001_eq Examples_eq Feature_frame
      Feature_part_001_frame ExampleCard_frame ExampleCategory_frame ExamplesHeader_frame
      initial_state_def)

text \<open>
  C8. For every example of \<open>ExampleCategories\<close> the number is a string of two decimal
  digits, \<open>toLowerCase\<close> followed by \<open>replace(' ', '-')\<close> leaves it as it is, and the
  one link of the card \<open>ExampleCard\<close> renders has the target \<open>/docs/examples/\<close> followed
  by the number as stored.
\<close>

theorem ExampleCard_link_is_number:
  "\<forall>c \<in> set ExampleCategories. \<forall>e \<in> set (cat_examples c).
     length (ex_number e) = 2 \<and> list_all is_digit (ex_number e) \<and>
     replace '' '' ''-'' (toLowerCase (ex_number e)) = ex_number e \<and>
     map (prop_value ''to'') (find_tag ''Link'' (fst (ExampleCard e s))) =
       [Some (S (''/docs/examples/'' @ ex_number e))]"
  using example_number_two_digits by (simp add: digits_link ExampleCard_link)

text \<open>The theorem of C8 at example 13, an entry of the second category.\<close>

theorem ExampleCard_link_is_number_witness:
  "map (prop_value ''to'')
     (find_tag ''Link''
        (fst (ExampleCard
           \<lparr>ex_number = ''13'', ex_title = ''HTTP + Redis + Fastify'',
            ex_description = ''Full-stack with Fastify''\<rparr> (initial_state id)))) =
     [Some (S ''/docs/examples/13'')]"
proof -
  let ?e = "\<lparr>ex_number = ''13'', ex_title = ''HTTP + Redis + Fastify'',
            ex_description = ''Full-stack with Fastify''\<rparr>"
  have c: "ExampleCategories ! 1 \<in> set ExampleCategories"
    by (simp add: ExampleCategories_def)
  have e: "?e \<in> set (cat_examples (ExampleCategories ! 1))"
    by (simp add: ExampleCategories_def)
  from ExampleCard_link_is_number [of "initial_state id"] c e
  have "map (prop_value ''to'') (find_tag ''Link'' (fst (ExampleCard ?e (initial_state id)))) =
       [Some (S (''/docs/examples/'' @ ex_number ?e))]"
    by blast
  then show ?thesis by simp
qed

text \<open>
  C9. In the TypeScript configuration, for every year of evaluation, the version field of
  \<open>customFields\<close> is \<open>LATEST_VERSION\<close>, which is \<open>0.7.0\<close>; the navbar has one \<open>html\<close>
  item, the badge built from \<open>LATEST_VERSION\<close>; and the text the badge displays is \<open>v\<close>
  followed by the version field of \<open>customFields\<close>.
\<close>

theorem badge_shows_version:
  "map_option cf_version (customFields (config_ts year)) = Some LATEST_VERSION \<and>
   LATEST_VERSION = ''0.7.0'' \<and>
   html_values (navbar_items (navbar (themeConfig (config_ts year)))) =
     [''<span class=\"version-badge\">v'' @ LATEST_VERSION @ ''</span>''] \<and>
   map (\<lambda>v. Some (text_content v))
       (html_values (navbar_items (navbar (themeConfig (config_ts year))))) =
     [map_option (\<lambda>cf. ''v'' @ cf_version cf) (customFields (config_ts year))]"
  by (simp add: config_ts_def text_content_def LATEST_VERSION_def)

text \<open>
  C10. Every category of \<open>ExampleCategories\<close> has at least one example; the example
  numbers are pairwise distinct across all categories; and within each category the
  numbers, read as decimal numbers, are strictly increasing.
\<close>

theorem ExampleCategories_invariant:
  "(\<forall>c \<in> set ExampleCategories. cat_examples c \<noteq> []) \<and>
   distinct (map ex_number (concat (map cat_examples ExampleCategories))) \<and>
   (\<forall>c \<in> set ExampleCategories. sorted_wrt numeric_less (map ex_number (cat_examples c)))"
proof -
  have "\<forall>c \<in> set ExampleCategories. cat_examples c \<noteq> []"
    by (simp add: ExampleCategories_def)
  moreover have "distinct (map ex_number (concat (map cat_examples ExampleCategories)))"
    unfolding example_numbers by simp
  moreover have "\<forall>c \<in> set ExampleCategories.
      sorted_wrt numeric_less (map ex_number (cat_examples c))"
    by (simp add: ExampleCategories_def numeric_less_def numeric_value_def is_digit_def)
  ultimately show ?thesis by simp
qed

text \<open>The theorem of C10 at the third category, the message broker examples.\<close>

theorem ExampleCategories_invariant_witness:
  "cat_examples (ExampleCategories ! 2) \<noteq> [] \<and>
   sorted_wrt numeric_less [''20'', ''21'', ''22'', ''23'', ''24'']"
proof -
  have c: "ExampleCategories ! 2 \<in> set ExampleCategories"
    by (simp add: ExampleCategories_def)
  have n: "map ex_number (cat_examples (ExampleCategories ! 2)) =
      [''20'', ''21'', ''22'', ''23'', ''24'']"
    by (simp add: ExampleCategories_def)
  from ExampleCategories_invariant c
  have "cat_examples (ExampleCategories ! 2) \<noteq> [] \<and>
      sorted_wrt numeric_less (map ex_number (cat_examples (ExampleCategories ! 2)))"
    by blast
  then show ?thesis unfolding n .
qed

end
